theory Spec2Isabelle
  imports Main "HOL-Library.Sublist"
begin

section \<open>URL completion provider of vscode-defold-ide\<close>

text \<open>
  A shallow embedding of \<^verbatim>\<open>src/completion/url-completion-provider.ts\<close>.
  JavaScript strings are modelled as \<^typ>\<open>string\<close>, arrays as lists, the value
  \<^verbatim>\<open>undefined\<close> returned by the provider as \<^const>\<open>None\<close>. The process-wide
  singleton \<^verbatim>\<open>DefoldIndex.instance\<close> and the host function
  \<^verbatim>\<open>vscode.workspace.asRelativePath\<close> are explicit arguments. A character of the
  model stands for one code unit of a JavaScript string; the source compares code units
  with ASCII characters only.
\<close>

subsection \<open>Host types\<close>

text \<open>
  The part of the editor API the file touches. Only \<^verbatim>\<open>CompletionItemKind.Text\<close> is
  used by the source; the other kinds of the host enumeration are lumped together.
\<close>

datatype CompletionItemKind = Text | OtherKind

record CompletionItemLabel =
  label :: string
  detail :: string
  description :: string

record CompletionItem =
  item_label :: CompletionItemLabel
  kind :: CompletionItemKind
  filterText :: "string option"

text \<open>
  \<^verbatim>\<open>new vscode.CompletionItem(label, kind)\<close>: the optional member
  \<^verbatim>\<open>filterText\<close> starts out undefined.
\<close>

definition new_CompletionItem :: "CompletionItemLabel \<Rightarrow> CompletionItemKind \<Rightarrow> CompletionItem" where
  "new_CompletionItem l k = \<lparr>item_label = l, kind = k, filterText = None\<rparr>"

record Uri =
  path :: string

record Position =
  line :: nat
  character :: nat

text \<open>
  A document is its \<^verbatim>\<open>uri\<close> and the host method \<^verbatim>\<open>lineAt(position).text\<close>.
\<close>

record TextDocument =
  uri :: Uri
  lineAt_text :: "Position \<Rightarrow> string"

subsection \<open>Project index\<close>

text \<open>
  Modelled from the spec: the declarations of \<^verbatim>\<open>IDefoldComponent\<close>,
  \<^verbatim>\<open>IDefoldInstance\<close> and \<^verbatim>\<open>DefoldIndex\<close> live in
  \<^verbatim>\<open>utils/defold-file-indexer\<close>, which is not part of the sources at hand. The
  fields are the ones the provider reads. The child instances form a JavaScript
  \<^verbatim>\<open>Set\<close>, which the provider spreads into an array; the list holds them in that
  iteration order. A value of the datatype is a finite tree, which is the containment
  invariant of the index; object graphs that break it are treated in the last section.
\<close>

record IDefoldComponent =
  c_url :: string
  c_type :: string
  c_filename :: string
  c_id :: string

datatype IDefoldInstance =
  IDefoldInstance
    (i_url: string)
    (i_type: string)
    (i_filename: string)
    (i_instances: "IDefoldInstance list")
    (i_components: "IDefoldComponent list")

record DefoldIndex =
  findGameObjectComponents :: "string \<Rightarrow> IDefoldComponent list"
  findCollectionInstances :: "string \<Rightarrow> IDefoldInstance list"

subsection \<open>Array and string helpers of the language\<close>

text \<open>\<^verbatim>\<open>Array.prototype.flatMap\<close> with a callback that returns arrays.\<close>

abbreviation flatMap :: "('a \<Rightarrow> 'b list) \<Rightarrow> 'a list \<Rightarrow> 'b list" where
  "flatMap f xs \<equiv> concat (map f xs)"

text \<open>\<^verbatim>\<open>String.prototype.endsWith\<close>.\<close>

definition endsWith :: "string \<Rightarrow> string \<Rightarrow> bool" where
  "endsWith s searchString =
     (length searchString \<le> length s \<and>
      drop (length s - length searchString) s = searchString)"

text \<open>
  \<^verbatim>\<open>String.prototype.substring\<close> on non-negative indices: both are clamped to the
  length and swapped when out of order.
\<close>

definition substring :: "string \<Rightarrow> nat \<Rightarrow> nat \<Rightarrow> string" where
  "substring s start stop =
     (let a = min start (length s); b = min stop (length s)
      in take (max a b - min a b) (drop (min a b) s))"

text \<open>The class \<^verbatim>\<open>\w\<close> of a regular expression without flags.\<close>

definition isWordChar :: "char \<Rightarrow> bool" where
  "isWordChar c =
     (c \<in> set (''abcdefghijklmnopqrstuvwxyz'' @ ''ABCDEFGHIJKLMNOPQRSTUVWXYZ'' @ ''0123456789_''))"

text \<open>
  The test of the regular expression \<^verbatim>\<open>/"\w+:$/\<close>: the text ends with a colon, before
  it stands a non-empty run of word characters, and before that a double quote. The quote
  is no word character, so the run is the longest one. The scan goes from the end of the
  text backwards.
\<close>

definition regexTest :: "string \<Rightarrow> bool" where
  "regexTest s =
     (case rev s of
        [] \<Rightarrow> False
      | c # r \<Rightarrow>
          c = CHR '':'' \<and> takeWhile isWordChar r \<noteq> [] \<and>
          (case dropWhile isWordChar r of [] \<Rightarrow> False | q # _ \<Rightarrow> q = CHR 0x22))"

subsection \<open>The provider\<close>

definition showUrlCompletion :: "TextDocument \<Rightarrow> Position \<Rightarrow> bool" where
  "showUrlCompletion document position =
     (if \<not> endsWith (path (uri document)) ''.script'' then False
      else
        let linePrefix = substring (lineAt_text document position) 0 (character position)
        in if endsWith linePrefix [CHR 0x22] \<or> endsWith linePrefix [CHR 0x22, CHR ''#'']
              \<or> regexTest linePrefix
           then True else False)"

definition componentCompletionItem :: "IDefoldComponent \<Rightarrow> CompletionItem" where
  "componentCompletionItem component =
     (let item = new_CompletionItem
            \<lparr>label = c_url component,
             detail = '' '' @ c_type component,
             description = c_filename component\<rparr> Text
      in item\<lparr>filterText := Some (c_id component)\<rparr>)"

text \<open>Lines 51 to 56 of the source: the item of the instance itself.\<close>

definition instanceItem :: "IDefoldInstance \<Rightarrow> CompletionItem" where
  "instanceItem inst =
     (let item = new_CompletionItem
            \<lparr>label = i_url inst,
             detail = '' '' @ i_type inst,
             description = i_filename inst\<rparr> Text
      in item\<lparr>filterText := Some (i_url inst)\<rparr>)"

fun instanceCompletionItem :: "IDefoldInstance \<Rightarrow> CompletionItem list" where
  "instanceCompletionItem (IDefoldInstance u t f insts comps) =
     [instanceItem (IDefoldInstance u t f insts comps)]
       @ flatMap instanceCompletionItem insts
       @ map componentCompletionItem comps"

definition completionIfAttachedToGameObject :: "DefoldIndex \<Rightarrow> string \<Rightarrow> CompletionItem list" where
  "completionIfAttachedToGameObject idx scriptPath =
     (let components = findGameObjectComponents idx (''/'' @ scriptPath)
      in map componentCompletionItem components)"

definition completionIfAttachedToCollection :: "DefoldIndex \<Rightarrow> string \<Rightarrow> CompletionItem list" where
  "completionIfAttachedToCollection idx script =
     (let instances = findCollectionInstances idx (''/'' @ script)
      in flatMap instanceCompletionItem instances)"

text \<open>
  Line 15 of the source, the list \<^verbatim>\<open>items\<close>: what the specification calls
  \<^verbatim>\<open>resolve\<close>.
\<close>

definition resolve :: "DefoldIndex \<Rightarrow> string \<Rightarrow> CompletionItem list" where
  "resolve idx script =
     completionIfAttachedToGameObject idx script @ completionIfAttachedToCollection idx script"

text \<open>
  The callback registered with the host. The cancellation token and the completion
  context are not read by the source and are left out.
\<close>

definition provideCompletionItems ::
  "(Uri \<Rightarrow> string) \<Rightarrow> DefoldIndex \<Rightarrow> TextDocument \<Rightarrow> Position \<Rightarrow> CompletionItem list option" where
  "provideCompletionItems asRelativePath idx document position =
     (if \<not> showUrlCompletion document position then None
      else
        let script = asRelativePath (uri document);
            items = resolve idx script
        in if length items \<noteq> 0 then Some items else None)"

subsection \<open>Object graphs\<close>

text \<open>
  JavaScript objects are references, so nothing in the type \<^verbatim>\<open>IDefoldInstance\<close>
  keeps an instance from being reachable from itself. A store maps references to
  instance objects, whose children are references. The expansion over a store is the
  same function as \<^const>\<open>instanceCompletionItem\<close>; its first argument is the depth of
  call stack at hand, and \<^const>\<open>None\<close> stands for a call that does not return because
  the stack is used up.
\<close>

type_synonym ref = nat

record InstanceObject =
  o_url :: string
  o_type :: string
  o_filename :: string
  o_instances :: "ref list"
  o_components :: "IDefoldComponent list"

type_synonym store = "ref \<Rightarrow> InstanceObject"

definition instanceItemAt :: "store \<Rightarrow> ref \<Rightarrow> CompletionItem" where
  "instanceItemAt st r =
     (let item = new_CompletionItem
            \<lparr>label = o_url (st r),
             detail = '' '' @ o_type (st r),
             description = o_filename (st r)\<rparr> Text
      in item\<lparr>filterText := Some (o_url (st r))\<rparr>)"

fun instanceCompletionItemAt :: "nat \<Rightarrow> store \<Rightarrow> ref \<Rightarrow> CompletionItem list option" where
  "instanceCompletionItemAt 0 st r = None"
| "instanceCompletionItemAt (Suc depth) st r =
     (case those (map (instanceCompletionItemAt depth st) (o_instances (st r))) of
        None \<Rightarrow> None
      | Some expansions \<Rightarrow>
          Some ([instanceItemAt st r]
                  @ concat expansions
                  @ map componentCompletionItem (o_components (st r))))"

text \<open>
  The object at a reference is the root of a finite tree: it carries the fields of the
  tree's root, and its children are, one by one and in order, the roots of the subtrees.
\<close>

fun represents :: "store \<Rightarrow> ref \<Rightarrow> IDefoldInstance \<Rightarrow> bool" where
  "represents st r (IDefoldInstance u t f insts comps) =
     (o_url (st r) = u \<and> o_type (st r) = t \<and> o_filename (st r) = f \<and>
      o_components (st r) = comps \<and>
      list_all2 (\<lambda>r' inst. represents st r' inst) (o_instances (st r)) insts)"

text \<open>The number of nested calls the expansion of a tree makes.\<close>

fun height :: "IDefoldInstance \<Rightarrow> nat" where
  "height (IDefoldInstance u t f insts comps) = Suc (fold max (map height insts) 0)"

subsection \<open>Allocation and assignment\<close>

text \<open>
  The provider creates objects and assigns to a member of the objects it has created. To
  compare two calls, the effects are written out: a heap is a list of objects, a reference
  is a position in it, and every function of the provider takes the heap and returns its
  result together with the new heap. A read at a position that holds no object of the
  expected kind has no result. Arrays stay values, since the source builds new arrays
  (\<^verbatim>\<open>map\<close>, \<^verbatim>\<open>flatMap\<close>, \<^verbatim>\<open>concat\<close>, spread) and never writes to one.
\<close>

text \<open>
  The objects the provider reads and the items it creates, in one heap. An instance
  object holds references to its child instances and to its components.
\<close>

record InstanceCell =
  n_url :: string
  n_type :: string
  n_filename :: string
  n_instances :: "nat list"
  n_components :: "nat list"

datatype jsobject =
    ComponentObject IDefoldComponent
  | InstanceObjectRef InstanceCell
  | ItemObject CompletionItem

type_synonym heap = "jsobject list"

definition deref :: "heap \<Rightarrow> nat \<Rightarrow> jsobject option" where
  "deref h a = (if a < length h then Some (h ! a) else None)"

text \<open>
  \<^verbatim>\<open>new vscode.CompletionItem(label, kind)\<close>: the new object goes to the end of the
  heap, and its position is the reference the expression yields.
\<close>

definition new_CompletionItem_heap ::
  "CompletionItemLabel \<Rightarrow> CompletionItemKind \<Rightarrow> heap \<Rightarrow> (nat \<times> heap) option" where
  "new_CompletionItem_heap l k h = Some (length h, h @ [ItemObject (new_CompletionItem l k)])"

text \<open>
  The assignment \<^verbatim>\<open>item.filterText = ...\<close>, a write to the object at a reference.
\<close>

definition assign_filterText :: "nat \<Rightarrow> string \<Rightarrow> heap \<Rightarrow> heap option" where
  "assign_filterText a v h =
     (case deref h a of
        Some (ItemObject item) \<Rightarrow> Some (h[a := ItemObject (item\<lparr>filterText := Some v\<rparr>)])
      | _ \<Rightarrow> None)"

text \<open>
  \<^verbatim>\<open>Array.prototype.map\<close> and \<^verbatim>\<open>Array.prototype.flatMap\<close> with a callback that
  changes the heap: the elements are visited from left to right, each call on the heap the
  previous one left.
\<close>

fun array_map :: "(nat \<Rightarrow> heap \<Rightarrow> (nat \<times> heap) option) \<Rightarrow> nat list \<Rightarrow> heap \<Rightarrow> (nat list \<times> heap) option" where
  "array_map f [] h = Some ([], h)"
| "array_map f (x # xs) h =
     Option.bind (f x h) (\<lambda>(y, h1).
     Option.bind (array_map f xs h1) (\<lambda>(ys, h2).
     Some (y # ys, h2)))"

fun array_flatMap :: "(nat \<Rightarrow> heap \<Rightarrow> (nat list \<times> heap) option) \<Rightarrow> nat list \<Rightarrow> heap \<Rightarrow> (nat list \<times> heap) option" where
  "array_flatMap f [] h = Some ([], h)"
| "array_flatMap f (x # xs) h =
     Option.bind (f x h) (\<lambda>(y, h1).
     Option.bind (array_flatMap f xs h1) (\<lambda>(ys, h2).
     Some (y @ ys, h2)))"

text \<open>
  The functions of the provider as heap transformers, statement by statement. As in the
  expansion over a store, the first argument of the expansion is the depth of stack at
  hand. The own item of an instance is created before the children are expanded, and the
  components come last, which is the order in which the array literal of the source
  evaluates its elements.
\<close>

definition componentCompletionItem_heap :: "nat \<Rightarrow> heap \<Rightarrow> (nat \<times> heap) option" where
  "componentCompletionItem_heap c h =
     (case deref h c of
        Some (ComponentObject component) \<Rightarrow>
          Option.bind (new_CompletionItem_heap
              \<lparr>label = c_url component,
               detail = '' '' @ c_type component,
               description = c_filename component\<rparr> Text h) (\<lambda>(item, h1).
          Option.bind (assign_filterText item (c_id component) h1) (\<lambda>h2.
          Some (item, h2)))
      | _ \<Rightarrow> None)"

fun instanceCompletionItem_heap :: "nat \<Rightarrow> nat \<Rightarrow> heap \<Rightarrow> (nat list \<times> heap) option" where
  "instanceCompletionItem_heap 0 i h = None"
| "instanceCompletionItem_heap (Suc depth) i h =
     (case deref h i of
        Some (InstanceObjectRef inst) \<Rightarrow>
          Option.bind (new_CompletionItem_heap
              \<lparr>label = n_url inst,
               detail = '' '' @ n_type inst,
               description = n_filename inst\<rparr> Text h) (\<lambda>(item, h1).
          Option.bind (assign_filterText item (n_url inst) h1) (\<lambda>h2.
          Option.bind (array_flatMap (instanceCompletionItem_heap depth) (n_instances inst) h2) (\<lambda>(xs, h3).
          Option.bind (array_map componentCompletionItem_heap (n_components inst) h3) (\<lambda>(ys, h4).
          Some ([item] @ xs @ ys, h4)))))
      | _ \<Rightarrow> None)"

text \<open>
  The two lookups return references to objects of the heap. Their tables are fixed: the
  index is not rebuilt between the calls that are compared.
\<close>

record DefoldIndexRefs =
  findGameObjectComponents_heap :: "string \<Rightarrow> nat list"
  findCollectionInstances_heap :: "string \<Rightarrow> nat list"

definition completionIfAttachedToGameObject_heap ::
  "DefoldIndexRefs \<Rightarrow> string \<Rightarrow> heap \<Rightarrow> (nat list \<times> heap) option" where
  "completionIfAttachedToGameObject_heap idx scriptPath h =
     (let components = findGameObjectComponents_heap idx (''/'' @ scriptPath)
      in array_map componentCompletionItem_heap components h)"

definition completionIfAttachedToCollection_heap ::
  "nat \<Rightarrow> DefoldIndexRefs \<Rightarrow> string \<Rightarrow> heap \<Rightarrow> (nat list \<times> heap) option" where
  "completionIfAttachedToCollection_heap depth idx script h =
     (let instances = findCollectionInstances_heap idx (''/'' @ script)
      in array_flatMap (instanceCompletionItem_heap depth) instances h)"

definition resolve_heap ::
  "nat \<Rightarrow> DefoldIndexRefs \<Rightarrow> string \<Rightarrow> heap \<Rightarrow> (nat list \<times> heap) option" where
  "resolve_heap depth idx script h =
     Option.bind (completionIfAttachedToGameObject_heap idx script h) (\<lambda>(xs, h1).
     Option.bind (completionIfAttachedToCollection_heap depth idx script h1) (\<lambda>(ys, h2).
     Some (xs @ ys, h2)))"

text \<open>
  What a run of the provider reads from the heap, without the allocation: the contents of
  the items by position. These functions are used to state what the transformers do.
\<close>

definition componentContent :: "heap \<Rightarrow> nat \<Rightarrow> CompletionItem option" where
  "componentContent h c =
     (case deref h c of
        Some (ComponentObject component) \<Rightarrow> Some (componentCompletionItem component)
      | _ \<Rightarrow> None)"

definition instanceCellItem :: "InstanceCell \<Rightarrow> CompletionItem" where
  "instanceCellItem inst =
     (new_CompletionItem
        \<lparr>label = n_url inst, detail = '' '' @ n_type inst, description = n_filename inst\<rparr> Text)
     \<lparr>filterText := Some (n_url inst)\<rparr>"

fun instanceContent :: "nat \<Rightarrow> heap \<Rightarrow> nat \<Rightarrow> CompletionItem list option" where
  "instanceContent 0 h i = None"
| "instanceContent (Suc depth) h i =
     (case deref h i of
        Some (InstanceObjectRef inst) \<Rightarrow>
          Option.bind (those (map (instanceContent depth h) (n_instances inst))) (\<lambda>xss.
          Option.bind (those (map (componentContent h) (n_components inst))) (\<lambda>ys.
          Some ([instanceCellItem inst] @ concat xss @ ys)))
      | _ \<Rightarrow> None)"

definition resolveContent :: "nat \<Rightarrow> DefoldIndexRefs \<Rightarrow> string \<Rightarrow> heap \<Rightarrow> CompletionItem list option" where
  "resolveContent depth idx script h =
     Option.bind (those (map (componentContent h) (findGameObjectComponents_heap idx (''/'' @ script)))) (\<lambda>xs.
     Option.bind (those (map (instanceContent depth h) (findCollectionInstances_heap idx (''/'' @ script)))) (\<lambda>yss.
     Some (xs @ concat yss)))"

text \<open>
  A run that yields the given contents appends one item object for each of them and
  returns their references in order.
\<close>

definition allocated :: "heap \<Rightarrow> CompletionItem list option \<Rightarrow> (nat list \<times> heap) option" where
  "allocated h r =
     map_option (\<lambda>its. ([length h ..< length h + length its], h @ map ItemObject its)) r"

subsection \<open>Sample data\<close>

text \<open>
  A collection with one instance that owns two components and one nested instance, which
  owns one component; the script \<^verbatim>\<open>main/player.script\<close> is attached to the
  collection and to no game object.
\<close>

definition sampleSprite :: IDefoldComponent where
  "sampleSprite =
     \<lparr>c_url = ''/player#sprite'', c_type = ''sprite'',
      c_filename = ''/main/player.go'', c_id = ''sprite''\<rparr>"

definition sampleScript :: IDefoldComponent where
  "sampleScript =
     \<lparr>c_url = ''/player#script'', c_type = ''script'',
      c_filename = ''/main/player.go'', c_id = ''script''\<rparr>"

definition sampleSound :: IDefoldComponent where
  "sampleSound =
     \<lparr>c_url = ''/player/gun#sound'', c_type = ''sound'',
      c_filename = ''/main/gun.go'', c_id = ''sound''\<rparr>"

definition sampleNested :: IDefoldInstance where
  "sampleNested = IDefoldInstance ''/player/gun'' ''go'' ''/main/gun.go'' [] [sampleSound]"

definition sampleOuter :: IDefoldInstance where
  "sampleOuter =
     IDefoldInstance ''/player'' ''go'' ''/main/player.go'' [sampleNested]
       [sampleSprite, sampleScript]"

definition sampleIndex :: DefoldIndex where
  "sampleIndex =
     \<lparr>findGameObjectComponents = (\<lambda>p. if p = ''/main/enemy.script'' then [sampleSprite, sampleScript] else []),
      findCollectionInstances = (\<lambda>p. if p = ''/main/player.script'' then [sampleOuter] else [])\<rparr>"

text \<open>The same tree laid out in a store, and a store in which two objects hold each other.\<close>

definition sampleStore :: store where
  "sampleStore r =
     (if r = 0 then
        \<lparr>o_url = ''/player'', o_type = ''go'', o_filename = ''/main/player.go'',
         o_instances = [1], o_components = [sampleSprite, sampleScript]\<rparr>
      else
        \<lparr>o_url = ''/player/gun'', o_type = ''go'', o_filename = ''/main/gun.go'',
         o_instances = [], o_components = [sampleSound]\<rparr>)"

definition cyclicStore :: store where
  "cyclicStore r =
     (if r = 0 then
        \<lparr>o_url = ''/player'', o_type = ''go'', o_filename = ''/main/player.go'',
         o_instances = [1], o_components = [sampleSprite, sampleScript]\<rparr>
      else
        \<lparr>o_url = ''/player/gun'', o_type = ''go'', o_filename = ''/main/gun.go'',
         o_instances = [0], o_components = [sampleSound]\<rparr>)"

definition sampleDocument :: "string \<Rightarrow> string \<Rightarrow> TextDocument" where
  "sampleDocument p ln = \<lparr>uri = \<lparr>path = p\<rparr>, lineAt_text = (\<lambda>_. ln)\<rparr>"

definition caretAt :: "nat \<Rightarrow> Position" where
  "caretAt n = \<lparr>line = 0, character = n\<rparr>"

text \<open>The workspace folder of the samples is \<^verbatim>\<open>/ws\<close>.\<close>

definition sampleRelativePath :: "Uri \<Rightarrow> string" where
  "sampleRelativePath u = drop 4 (path u)"

text \<open>The sample collection and the sample index as objects of a heap.\<close>

definition sampleHeap :: heap where
  "sampleHeap =
     [ComponentObject sampleSprite, ComponentObject sampleScript, ComponentObject sampleSound,
      InstanceObjectRef \<lparr>n_url = ''/player/gun'', n_type = ''go'', n_filename = ''/main/gun.go'',
         n_instances = [], n_components = [2]\<rparr>,
      InstanceObjectRef \<lparr>n_url = ''/player'', n_type = ''go'', n_filename = ''/main/player.go'',
         n_instances = [3], n_components = [0, 1]\<rparr>]"

definition sampleIndexRefs :: DefoldIndexRefs where
  "sampleIndexRefs =
     \<lparr>findGameObjectComponents_heap = (\<lambda>p. if p = ''/main/enemy.script'' then [0, 1] else []),
      findCollectionInstances_heap = (\<lambda>p. if p = ''/main/player.script'' then [4] else [])\<rparr>"

section \<open>Properties\<close>

subsection \<open>Helper facts\<close>

lemma endsWith_suffix: "endsWith s t = suffix t s"
proof
  assume "endsWith s t"
  then have "s = take (length s - length t) s @ t"
    unfolding endsWith_def by (metis append_take_drop_id)
  then show "suffix t s" unfolding suffix_def by blast
next
  assume "suffix t s"
  then obtain zs where "s = zs @ t" unfolding suffix_def by blast
  then show "endsWith s t" unfolding endsWith_def by simp
qed

lemma substring_from_start: "substring s 0 n = take n s"
  by (simp add: substring_def min_def)

lemma quote_not_word: "\<not> isWordChar (CHR 0x22)"
  by (simp add: isWordChar_def)

lemma regexTest_iff:
  "regexTest s =
     (\<exists>pre w. s = pre @ [CHR 0x22] @ w @ '':'' \<and> w \<noteq> [] \<and> list_all isWordChar w)"
proof
  assume a: "regexTest s"
  then obtain c r where rs: "rev s = c # r"
    unfolding regexTest_def by (cases "rev s") auto
  from a rs have c: "c = CHR '':''" and tw: "takeWhile isWordChar r \<noteq> []"
    unfolding regexTest_def by auto
  from a rs obtain rest where dw: "dropWhile isWordChar r = CHR 0x22 # rest"
    unfolding regexTest_def by (cases "dropWhile isWordChar r") auto
  have "r = takeWhile isWordChar r @ CHR 0x22 # rest"
    using dw by (metis takeWhile_dropWhile_id)
  then have "rev r = rev rest @ [CHR 0x22] @ rev (takeWhile isWordChar r)"
    by (metis append_Cons append_Nil append_assoc rev.simps(2) rev_append)
  moreover have "s = rev r @ [c]" using rs by (metis rev.simps(2) rev_rev_ident)
  ultimately have "s = rev rest @ [CHR 0x22] @ rev (takeWhile isWordChar r) @ '':''"
    using c by simp
  moreover have "list_all isWordChar (rev (takeWhile isWordChar r))"
    by (simp add: list_all_iff) (meson set_takeWhileD)
  ultimately show "\<exists>pre w. s = pre @ [CHR 0x22] @ w @ '':'' \<and> w \<noteq> [] \<and> list_all isWordChar w"
    using tw by (metis rev_is_Nil_conv)
next
  assume "\<exists>pre w. s = pre @ [CHR 0x22] @ w @ '':'' \<and> w \<noteq> [] \<and> list_all isWordChar w"
  then obtain pre w where s: "s = pre @ [CHR 0x22] @ w @ '':''" and w: "w \<noteq> []"
    and ws: "list_all isWordChar w" by blast
  have rs: "rev s = CHR '':'' # (rev w @ CHR 0x22 # rev pre)" using s by simp
  have all: "\<And>x. x \<in> set (rev w) \<Longrightarrow> isWordChar x" using ws by (simp add: list_all_iff)
  have "takeWhile isWordChar (rev w @ CHR 0x22 # rev pre)
          = rev w @ takeWhile isWordChar (CHR 0x22 # rev pre)"
    by (rule takeWhile_append2) (rule all)
  then have tw: "takeWhile isWordChar (rev w @ CHR 0x22 # rev pre) = rev w"
    using quote_not_word by simp
  have "dropWhile isWordChar (rev w @ CHR 0x22 # rev pre)
          = dropWhile isWordChar (CHR 0x22 # rev pre)"
    by (rule dropWhile_append2) (rule all)
  then have dw: "dropWhile isWordChar (rev w @ CHR 0x22 # rev pre) = CHR 0x22 # rev pre"
    using quote_not_word by simp
  show "regexTest s"
    unfolding regexTest_def rs using tw dw w by simp
qed

lemma instanceCompletionItem_sel:
  "instanceCompletionItem inst =
     instanceItem inst # flatMap instanceCompletionItem (i_instances inst)
       @ map componentCompletionItem (i_components inst)"
  by (cases inst) simp

lemma resolve_eq:
  "resolve idx script =
     map componentCompletionItem (findGameObjectComponents idx (CHR ''/'' # script))
       @ flatMap instanceCompletionItem (findCollectionInstances idx (CHR ''/'' # script))"
  by (simp add: resolve_def completionIfAttachedToGameObject_def
        completionIfAttachedToCollection_def)

lemma sample_resolve:
  "resolve sampleIndex ''main/player.script'' =
     [instanceItem sampleOuter, instanceItem sampleNested, componentCompletionItem sampleSound,
      componentCompletionItem sampleSprite, componentCompletionItem sampleScript]"
  by (simp add: resolve_eq sampleIndex_def sampleOuter_def sampleNested_def)

lemma fold_max_ge_init: "(a::nat) \<le> fold max xs a"
proof (induction xs arbitrary: a)
  case Nil
  then show ?case by simp
next
  case (Cons x xs)
  have "a \<le> max x a" by simp
  also have "\<dots> \<le> fold max xs (max x a)" by (rule Cons.IH)
  finally show ?case by simp
qed

lemma fold_max_ge_elem: "x \<in> set xs \<Longrightarrow> (x::nat) \<le> fold max xs a"
proof (induction xs arbitrary: a)
  case Nil
  then show ?case by simp
next
  case (Cons y ys)
  show ?case
  proof (cases "x = y")
    case True
    have "x \<le> max y a" using True by simp
    also have "\<dots> \<le> fold max ys (max y a)" by (rule fold_max_ge_init)
    finally show ?thesis by simp
  next
    case False
    then have "x \<in> set ys" using Cons.prems by simp
    then show ?thesis using Cons.IH by simp
  qed
qed

lemma those_map_Some:
  "list_all2 (\<lambda>x y. g x = Some (h y)) xs ys \<Longrightarrow> those (map g xs) = Some (map h ys)"
  by (induction xs ys rule: list_all2_induct) simp_all

lemma deref_old: "a < length h \<Longrightarrow> deref (h @ e) a = deref h a"
  by (simp add: deref_def nth_append)

lemma deref_items:
  "deref (h @ map ItemObject its) a =
     (if a < length h then deref h a
      else if a < length h + length its then Some (ItemObject (its ! (a - length h)))
      else None)"
  by (auto simp: deref_def nth_append)

lemma componentContent_stable:
  "componentContent (h @ map ItemObject its) = componentContent h"
proof (rule ext)
  fix c
  show "componentContent (h @ map ItemObject its) c = componentContent h c"
    by (simp add: componentContent_def deref_items) (simp add: deref_def)
qed

lemma instanceContent_stable:
  "instanceContent depth (h @ map ItemObject its) = instanceContent depth h"
proof (induction depth)
  case 0
  show ?case by (rule ext) simp
next
  case (Suc depth)
  show ?case
  proof (rule ext)
    fix i
    show "instanceContent (Suc depth) (h @ map ItemObject its) i = instanceContent (Suc depth) h i"
    proof (cases "i < length h")
      case True
      then have "deref (h @ map ItemObject its) i = deref h i"
        by (rule deref_old)
      then show ?thesis
        by (simp add: Suc.IH componentContent_stable split: option.split jsobject.split)
    next
      case False
      then have "deref h i = None" by (simp add: deref_def)
      moreover have "deref (h @ map ItemObject its) i = None \<or>
          (\<exists>it. deref (h @ map ItemObject its) i = Some (ItemObject it))"
        using False by (simp add: deref_items)
      ultimately show ?thesis by auto
    qed
  qed
qed

lemma resolveContent_stable:
  "resolveContent depth idx script (h @ map ItemObject its) = resolveContent depth idx script h"
  by (simp add: resolveContent_def componentContent_stable instanceContent_stable)

lemma upt_Cons_shift: "n # [Suc n ..< Suc (n + k)] = [n ..< Suc (n + k)]"
  by (simp add: upt_conv_Cons del: upt_Suc)

lemma new_then_assign:
  "Option.bind (new_CompletionItem_heap l k h) (\<lambda>(item, h1).
     Option.bind (assign_filterText item v h1) (\<lambda>h2. F item h2))
   = F (length h) (h @ [ItemObject ((new_CompletionItem l k)\<lparr>filterText := Some v\<rparr>)])"
  by (simp add: new_CompletionItem_heap_def assign_filterText_def deref_def)

lemma componentCompletionItem_heap_alloc:
  "componentCompletionItem_heap c h
     = map_option (\<lambda>it. (length h, h @ [ItemObject it])) (componentContent h c)"
  by (simp add: componentCompletionItem_heap_def componentContent_def new_then_assign
        componentCompletionItem_def split: option.splits jsobject.splits)

lemma allocated_Cons:
  "Option.bind (allocated (h @ [ItemObject it]) r) (\<lambda>(ys, h2). Some (length h # ys, h2))
     = allocated h (map_option (Cons it) r)"
  by (cases r) (simp_all add: allocated_def upt_Cons_shift del: upt_Suc)

lemma upt_append_shift: "[n ..< n + k] @ [n + k ..< n + k + m] = [n ..< n + (k + m)]"
proof -
  have "[n ..< (n + k) + m] = [n ..< n + k] @ [n + k ..< (n + k) + m]"
    by (rule upt_add_eq_append) simp
  then show ?thesis by (simp only: add.assoc)
qed

lemma upt_three:
  "[n] @ [Suc n ..< Suc n + a] @ [Suc (n + a) ..< Suc (n + a) + b] = [n ..< n + Suc (a + b)]"
proof -
  have "[Suc n ..< Suc n + a] @ [Suc n + a ..< Suc n + a + b] = [Suc n ..< Suc n + (a + b)]"
    by (rule upt_append_shift)
  then show ?thesis
    using upt_Cons_shift [of n "a + b"] by (simp del: upt_Suc)
qed

lemma allocated_append:
  "Option.bind (allocated (h @ map ItemObject its) r) (\<lambda>(ys, h2).
      Some ([length h ..< length h + length its] @ ys, h2))
     = allocated h (map_option ((@) its) r)"
  by (cases r) (simp_all add: allocated_def upt_append_shift)

lemma array_map_alloc:
  "array_map componentCompletionItem_heap cs h
     = allocated h (those (map (componentContent h) cs))"
proof (induction cs arbitrary: h)
  case Nil
  then show ?case by (simp add: allocated_def)
next
  case (Cons c cs)
  show ?case
  proof (cases "componentContent h c")
    case None
    then show ?thesis by (simp add: componentCompletionItem_heap_alloc allocated_def)
  next
    case (Some it)
    have "componentContent (h @ [ItemObject it]) = componentContent h"
      using componentContent_stable [of h "[it]"] by simp
    then show ?thesis
      using Some Cons.IH [of "h @ [ItemObject it]"]
      by (simp add: componentCompletionItem_heap_alloc allocated_Cons)
  qed
qed

lemma array_flatMap_alloc:
  assumes f: "\<And>x h. f x h = allocated h (g h x)"
    and g: "\<And>x h its. g (h @ map ItemObject its) x = g h x"
  shows "array_flatMap f xs h = allocated h (map_option concat (those (map (g h) xs)))"
proof (induction xs arbitrary: h)
  case Nil
  then show ?case by (simp add: allocated_def)
next
  case (Cons x xs)
  show ?case
  proof (cases "g h x")
    case None
    then show ?thesis by (simp add: f allocated_def)
  next
    case (Some its)
    let ?h1 = "h @ map ItemObject its"
    let ?rest = "map_option concat (those (map (g h) xs))"
    have stable: "g ?h1 = g h"
      by (rule ext) (rule g)
    have first: "f x h = Some ([length h ..< length h + length its], ?h1)"
      using Some by (simp add: f allocated_def)
    have "array_flatMap f (x # xs) h
            = Option.bind (array_flatMap f xs ?h1) (\<lambda>(ys, h2).
                Some ([length h ..< length h + length its] @ ys, h2))"
      by (simp add: first)
    also have "\<dots> = Option.bind (allocated ?h1 ?rest) (\<lambda>(ys, h2).
                Some ([length h ..< length h + length its] @ ys, h2))"
      by (simp only: Cons.IH stable)
    also have "\<dots> = allocated h (map_option ((@) its) ?rest)"
      by (rule allocated_append)
    also have "map_option ((@) its) ?rest
                 = map_option concat (those (map (g h) (x # xs)))"
      using Some by (cases "those (map (g h) xs)") simp_all
    finally show ?thesis .
  qed
qed


lemma allocated_Some:
  "allocated h (Some its) = Some ([length h ..< length h + length its], h @ map ItemObject its)"
  by (simp add: allocated_def)

lemma allocated_None: "allocated h None = None"
  by (simp add: allocated_def)

lemma instanceCompletionItem_heap_alloc:
  "instanceCompletionItem_heap depth i h = allocated h (instanceContent depth h i)"
proof (induction depth arbitrary: i h)
  case 0
  then show ?case by (simp add: allocated_None)
next
  case (Suc depth)
  show ?case
  proof (cases "deref h i")
    case None
    then show ?thesis by (simp add: allocated_None)
  next
    case (Some ob)
    show ?thesis
    proof (cases ob)
      case (InstanceObjectRef inst)
      let ?it = "instanceCellItem inst"
      let ?h1 = "h @ map ItemObject [?it]"
      let ?kids = "map_option concat (those (map (instanceContent depth h) (n_instances inst)))"
      let ?comps = "those (map (componentContent h) (n_components inst))"
      have run: "instanceCompletionItem_heap (Suc depth) i h =
          Option.bind (array_flatMap (instanceCompletionItem_heap depth) (n_instances inst) ?h1)
            (\<lambda>(xs, h3).
          Option.bind (array_map componentCompletionItem_heap (n_components inst) h3)
            (\<lambda>(ys, h4). Some ([length h] @ xs @ ys, h4)))"
        using Some InstanceObjectRef
        by (simp add: new_then_assign instanceCellItem_def)
      have content: "instanceContent (Suc depth) h i =
          Option.bind ?kids (\<lambda>xs. Option.bind ?comps (\<lambda>ys. Some ([?it] @ xs @ ys)))"
        using Some InstanceObjectRef
        by (cases "those (map (instanceContent depth h) (n_instances inst))") simp_all
      have kids: "array_flatMap (instanceCompletionItem_heap depth) (n_instances inst) ?h1
          = allocated ?h1 ?kids"
      proof -
        have "array_flatMap (instanceCompletionItem_heap depth) (n_instances inst) ?h1
            = allocated ?h1
                (map_option concat (those (map (instanceContent depth ?h1) (n_instances inst))))"
          by (rule array_flatMap_alloc [where g = "instanceContent depth"])
             (simp_all only: Suc.IH instanceContent_stable)
        then show ?thesis by (simp only: instanceContent_stable)
      qed
      show ?thesis
      proof (cases ?kids)
        case None
        then show ?thesis
          by (simp only: run content kids allocated_None Option.bind.simps)
      next
        case kidsSome: (Some xs)
        let ?h3 = "h @ map ItemObject ([?it] @ xs)"
        have h3: "?h1 @ map ItemObject xs = ?h3" by simp
        have comps: "array_map componentCompletionItem_heap (n_components inst) ?h3
            = allocated ?h3 ?comps"
          by (simp only: array_map_alloc componentContent_stable)
        show ?thesis
        proof (cases ?comps)
          case None
          then show ?thesis
            by (simp only: run content kids kidsSome allocated_Some allocated_None
                  Option.bind.simps prod.case h3 comps)
        next
          case compsSome: (Some ys)
          have "instanceCompletionItem_heap (Suc depth) i h
              = Some ([length h] @ [length ?h1 ..< length ?h1 + length xs]
                        @ [length ?h3 ..< length ?h3 + length ys],
                      ?h3 @ map ItemObject ys)"
            by (simp only: run kids kidsSome allocated_Some Option.bind.simps prod.case h3
                  comps compsSome)
          also have "[length h] @ [length ?h1 ..< length ?h1 + length xs]
                        @ [length ?h3 ..< length ?h3 + length ys]
              = [length h ..< length h + length ([?it] @ xs @ ys)]"
            using upt_three [of "length h" "length xs" "length ys"]
            by (simp del: upt_Suc)
          also have "?h3 @ map ItemObject ys = h @ map ItemObject ([?it] @ xs @ ys)"
            by simp
          finally show ?thesis
            by (simp only: content kidsSome compsSome Option.bind.simps allocated_Some)
        qed
      qed
    qed (use Some in \<open>simp_all add: allocated_None\<close>)
  qed
qed


lemma resolve_heap_alloc:
  "resolve_heap depth idx script h = allocated h (resolveContent depth idx script h)"
proof -
  let ?cs = "findGameObjectComponents_heap idx (''/'' @ script)"
  let ?is = "findCollectionInstances_heap idx (''/'' @ script)"
  let ?comps = "those (map (componentContent h) ?cs)"
  let ?insts = "map_option concat (those (map (instanceContent depth h) ?is))"
  have run: "resolve_heap depth idx script h =
      Option.bind (array_map componentCompletionItem_heap ?cs h) (\<lambda>(xs, h1).
      Option.bind (array_flatMap (instanceCompletionItem_heap depth) ?is h1) (\<lambda>(ys, h2).
      Some (xs @ ys, h2)))"
    by (simp add: resolve_heap_def completionIfAttachedToGameObject_heap_def
          completionIfAttachedToCollection_heap_def)
  have content: "resolveContent depth idx script h =
      Option.bind ?comps (\<lambda>xs. Option.bind ?insts (\<lambda>ys. Some (xs @ ys)))"
    by (cases "those (map (instanceContent depth h) ?is)")
       (simp_all add: resolveContent_def)
  have coll: "array_flatMap (instanceCompletionItem_heap depth) ?is (h @ map ItemObject xs)
      = allocated (h @ map ItemObject xs) ?insts" for xs
  proof -
    have "array_flatMap (instanceCompletionItem_heap depth) ?is (h @ map ItemObject xs)
        = allocated (h @ map ItemObject xs)
            (map_option concat (those (map (instanceContent depth (h @ map ItemObject xs)) ?is)))"
      by (rule array_flatMap_alloc [where g = "instanceContent depth"])
         (simp_all only: instanceCompletionItem_heap_alloc instanceContent_stable)
    then show ?thesis by (simp only: instanceContent_stable)
  qed
  show ?thesis
  proof (cases ?comps)
    case None
    then show ?thesis
      by (simp only: run content array_map_alloc allocated_None Option.bind.simps)
  next
    case compsSome: (Some xs)
    show ?thesis
    proof (cases ?insts)
      case None
      then show ?thesis
        by (simp only: run content array_map_alloc compsSome allocated_Some allocated_None
              Option.bind.simps prod.case coll)
    next
      case (Some ys)
      have "resolve_heap depth idx script h
          = Some ([length h ..< length h + length xs]
                    @ [length (h @ map ItemObject xs) ..< length (h @ map ItemObject xs) + length ys],
                  (h @ map ItemObject xs) @ map ItemObject ys)"
        by (simp only: run array_map_alloc compsSome allocated_Some Option.bind.simps
              prod.case coll Some)
      also have "[length h ..< length h + length xs]
                    @ [length (h @ map ItemObject xs) ..< length (h @ map ItemObject xs) + length ys]
          = [length h ..< length h + length (xs @ ys)]"
        using upt_append_shift [of "length h" "length xs" "length ys"] by simp
      also have "(h @ map ItemObject xs) @ map ItemObject ys = h @ map ItemObject (xs @ ys)"
        by simp
      finally show ?thesis
        by (simp only: content compsSome Some Option.bind.simps allocated_Some)
    qed
  qed
qed

lemma deref_allocated:
  "map (deref (h @ map ItemObject its @ e)) [length h ..< length h + length its]
     = map (\<lambda>it. Some (ItemObject it)) its"
proof (rule nth_equalityI)
  show "length (map (deref (h @ map ItemObject its @ e)) [length h ..< length h + length its])
          = length (map (\<lambda>it. Some (ItemObject it)) its)"
    by simp
next
  fix k
  assume "k < length (map (deref (h @ map ItemObject its @ e)) [length h ..< length h + length its])"
  then have k: "k < length its" by simp
  then show "map (deref (h @ map ItemObject its @ e)) [length h ..< length h + length its] ! k
          = map (\<lambda>it. Some (ItemObject it)) its ! k"
    by (simp add: deref_def nth_append)
qed

lemma sample_first_call:
  "resolve_heap 2 sampleIndexRefs ''main/player.script'' sampleHeap
     = Some ([5, 6, 7, 8, 9],
             sampleHeap @ map ItemObject (resolve sampleIndex ''main/player.script''))"
  by (simp add: resolve_heap_def completionIfAttachedToGameObject_heap_def
        completionIfAttachedToCollection_heap_def sampleIndexRefs_def sampleHeap_def
        numeral_2_eq_2 componentCompletionItem_heap_def new_CompletionItem_heap_def
        assign_filterText_def deref_def sample_resolve instanceItem_def
        componentCompletionItem_def sampleOuter_def sampleNested_def sampleSprite_def
        sampleScript_def sampleSound_def)

subsection \<open>Recursive expansion of an instance\<close>

text \<open>
  Claim C1, amended. The expansion of an instance is, in order, the item of the instance
  itself, the expansions of its child instances, and one item for each of its components
  in their order. For a collection with one instance that has two components and one
  nested instance with one component of its own, attached to a script that belongs to no
  game object, the result is the outer instance, the nested instance, the nested
  instance's component and the two components of the outer instance: five suggestions.
\<close>

theorem expansion_order:
  "instanceCompletionItem inst =
     [instanceItem inst]
       @ flatMap instanceCompletionItem (i_instances inst)
       @ map componentCompletionItem (i_components inst) \<and>
   (findGameObjectComponents idx (CHR ''/'' # script) = [] \<and>
    findCollectionInstances idx (CHR ''/'' # script) = [outer] \<and>
    i_instances outer = [nested] \<and> i_components outer = [c1, c2] \<and>
    i_instances nested = [] \<and> i_components nested = [c3] \<longrightarrow>
      resolve idx script =
        [instanceItem outer, instanceItem nested, componentCompletionItem c3,
         componentCompletionItem c1, componentCompletionItem c2] \<and>
      length (resolve idx script) = 5)"
  by (simp add: resolve_eq instanceCompletionItem_sel [of inst]
        instanceCompletionItem_sel [of outer] instanceCompletionItem_sel [of nested])

text \<open>
  The amended claim C1 on the sample collection.
\<close>

theorem expansion_order_witness:
  "resolve sampleIndex ''main/player.script'' =
     [instanceItem sampleOuter, instanceItem sampleNested, componentCompletionItem sampleSound,
      componentCompletionItem sampleSprite, componentCompletionItem sampleScript] \<and>
   length (resolve sampleIndex ''main/player.script'') = 5"
  using expansion_order [of sampleOuter sampleIndex "''main/player.script''" sampleOuter
      sampleNested sampleSprite sampleScript sampleSound]
  by (simp add: sampleIndex_def sampleOuter_def sampleNested_def)

text \<open>
  Claim C1 as stated counts four suggestions in that scenario. The sample collection is
  such a scenario, listed here item by item, and its result does not have length four.
\<close>

theorem four_suggestions_counterexample:
  "findGameObjectComponents sampleIndex ''/main/player.script'' = [] \<and>
   findCollectionInstances sampleIndex ''/main/player.script'' = [sampleOuter] \<and>
   i_instances sampleOuter = [sampleNested] \<and>
   i_components sampleOuter = [sampleSprite, sampleScript] \<and>
   i_instances sampleNested = [] \<and> i_components sampleNested = [sampleSound] \<and>
   resolve sampleIndex ''main/player.script'' =
     [instanceItem sampleOuter, instanceItem sampleNested, componentCompletionItem sampleSound,
      componentCompletionItem sampleSprite, componentCompletionItem sampleScript] \<and>
   length (resolve sampleIndex ''main/player.script'') \<noteq> 4"
  by (simp add: resolve_eq sampleIndex_def sampleOuter_def sampleNested_def)

text \<open>
  Claim C9. The expansion of an instance has one item more than the expansions of its
  children and its own components together; it is never empty, and its first item is the
  item of the instance itself. The instance is a value of the datatype, hence a finite
  tree.
\<close>

theorem expansion_size:
  "length (instanceCompletionItem inst) =
     1 + sum_list (map (\<lambda>child. length (instanceCompletionItem child)) (i_instances inst))
       + length (i_components inst) \<and>
   instanceCompletionItem inst \<noteq> [] \<and>
   hd (instanceCompletionItem inst) = instanceItem inst"
  by (simp add: instanceCompletionItem_sel [of inst] length_concat comp_def)

text \<open>
  Claim C9 on the sample collection: one item for the outer instance, two for the nested
  instance and its component, two for the outer components.
\<close>

theorem expansion_size_witness:
  "length (instanceCompletionItem sampleOuter) = 1 + (1 + 0 + 1) + 2 \<and>
   hd (instanceCompletionItem sampleOuter) = instanceItem sampleOuter"
  using expansion_size [of sampleOuter] expansion_size [of sampleNested]
  by (simp add: sampleOuter_def sampleNested_def)

subsection \<open>The trigger predicate\<close>

text \<open>
  Claim C2. The predicate holds exactly when the path of the document ends with
  \<^verbatim>\<open>.script\<close> and the text before the caret ends with a double quote, or ends with
  a double quote and a hash sign, or ends with a double quote, at least one word
  character and a colon.
\<close>

theorem showUrlCompletion_iff:
  "showUrlCompletion document position =
     (suffix ''.script'' (path (uri document)) \<and>
      (let before = take (character position) (lineAt_text document position)
       in suffix [CHR 0x22] before \<or> suffix [CHR 0x22, CHR ''#''] before \<or>
          (\<exists>pre w. before = pre @ [CHR 0x22] @ w @ '':'' \<and> w \<noteq> [] \<and>
             list_all isWordChar w)))"
  by (simp add: showUrlCompletion_def endsWith_suffix substring_from_start regexTest_iff
        Let_def)

text \<open>
  Claim C2 on sample lines: the three patterns are accepted in a script file; after a
  closed quoted string, and in a file that is no script, the predicate is false.
\<close>

theorem showUrlCompletion_iff_witness:
  \<open>showUrlCompletion (sampleDocument ''/ws/main/player.script'' ''local x = go.get("'') (caretAt 18) \<and>
   showUrlCompletion (sampleDocument ''/ws/main/player.script'' ''local x = go.get("#'') (caretAt 19) \<and>
   showUrlCompletion (sampleDocument ''/ws/main/player.script'' ''local x = go.get("go:'') (caretAt 21) \<and>
   \<not> showUrlCompletion (sampleDocument ''/ws/main/player.script'' ''local x = go.get("go")'') (caretAt 22) \<and>
   \<not> showUrlCompletion (sampleDocument ''/ws/main/player.lua'' ''local x = go.get("'') (caretAt 18)\<close>
proof -
  have doc: "showUrlCompletion (sampleDocument p ln) (caretAt n) =
      (suffix ''.script'' p \<and>
       (suffix [CHR 0x22] (take n ln) \<or> suffix [CHR 0x22, CHR ''#''] (take n ln) \<or>
        (\<exists>pre w. take n ln = pre @ [CHR 0x22] @ w @ '':'' \<and> w \<noteq> [] \<and>
           list_all isWordChar w)))" for p ln n
    using showUrlCompletion_iff [of "sampleDocument p ln" "caretAt n"]
    by (simp add: sampleDocument_def caretAt_def Let_def)
  have script: "suffix ''.script'' ''/ws/main/player.script''"
    by (simp add: suffix_to_prefix)
  have lua: "\<not> suffix ''.script'' ''/ws/main/player.lua''"
    by (simp add: suffix_to_prefix)
  have quote: \<open>suffix [CHR 0x22] (take 18 ''local x = go.get("'')\<close>
    by (simp add: suffix_to_prefix)
  have hash: \<open>suffix [CHR 0x22, CHR ''#''] (take 19 ''local x = go.get("#'')\<close>
    by (simp add: suffix_to_prefix)
  have \<open>take 21 ''local x = go.get("go:'' = ''local x = go.get('' @ [CHR 0x22] @ ''go'' @ '':''\<close>
    by simp
  moreover have "''go'' \<noteq> [] \<and> list_all isWordChar ''go''"
    by (simp add: isWordChar_def)
  ultimately have colon:
    \<open>\<exists>pre w. take 21 ''local x = go.get("go:'' = pre @ [CHR 0x22] @ w @ '':'' \<and> w \<noteq> [] \<and>
        list_all isWordChar w\<close>
    by blast
  have closed: \<open>take 22 ''local x = go.get("go")'' = ''local x = go.get("go'' @ [CHR 0x22, CHR '')'']\<close>
    by simp
  have closed1: \<open>\<not> suffix [CHR 0x22] (take 22 ''local x = go.get("go")'')\<close>
    by (simp add: suffix_to_prefix)
  have closed2: \<open>\<not> suffix [CHR 0x22, CHR ''#''] (take 22 ''local x = go.get("go")'')\<close>
    by (simp add: suffix_to_prefix)
  have closed3:
    \<open>\<not> (\<exists>pre w. take 22 ''local x = go.get("go")'' = pre @ [CHR 0x22] @ w @ '':'' \<and> w \<noteq> [] \<and>
          list_all isWordChar w)\<close>
  proof
    assume \<open>\<exists>pre w. take 22 ''local x = go.get("go")'' = pre @ [CHR 0x22] @ w @ '':'' \<and>
              w \<noteq> [] \<and> list_all isWordChar w\<close>
    then obtain pre w where
      \<open>''local x = go.get("go'' @ [CHR 0x22, CHR '')''] = pre @ [CHR 0x22] @ w @ '':''\<close>
      unfolding closed by blast
    then have \<open>last (''local x = go.get("go'' @ [CHR 0x22, CHR '')''])
                 = last (pre @ [CHR 0x22] @ w @ '':'')\<close>
      by (rule arg_cong)
    then show False by simp
  qed
  show ?thesis
    unfolding doc using script lua quote hash colon closed1 closed2 closed3 by blast
qed

text \<open>
  A hash sign that follows a name, and not the quote itself, does not trigger the
  completion: the line ends with neither of the two literal suffixes, and the pattern
  needs a colon at the end.
\<close>

lemma fragment_after_name_example:
  \<open>\<not> showUrlCompletion (sampleDocument ''/ws/main/player.script'' ''local x = go.get("go#'') (caretAt 21)\<close>
  by (simp add: showUrlCompletion_def sampleDocument_def caretAt_def endsWith_def
        substring_def regexTest_def)

subsection \<open>The two completion sources\<close>

text \<open>
  Claim C3. The result is the items of the components that the game object lookup
  returns, one for each and in that order, followed by the expansions of the instances
  that the collection lookup returns. When the collection lookup returns nothing, there
  are as many suggestions as components, and the filter text of each is the id of its
  component.
\<close>

theorem resolve_concat:
  "resolve idx script =
     map componentCompletionItem (findGameObjectComponents idx (''/'' @ script))
       @ flatMap instanceCompletionItem (findCollectionInstances idx (''/'' @ script)) \<and>
   (findCollectionInstances idx (''/'' @ script) = [] \<longrightarrow>
      length (resolve idx script) = length (findGameObjectComponents idx (''/'' @ script)) \<and>
      map filterText (resolve idx script)
        = map (\<lambda>c. Some (c_id c)) (findGameObjectComponents idx (''/'' @ script)))"
  by (simp add: resolve_eq componentCompletionItem_def new_CompletionItem_def)

text \<open>
  Claim C3 on the sample index: the script of the game object with two components gets
  two suggestions.
\<close>

theorem resolve_concat_witness:
  "findCollectionInstances sampleIndex ''/main/enemy.script'' = [] \<and>
   length (resolve sampleIndex ''main/enemy.script'') = 2 \<and>
   map filterText (resolve sampleIndex ''main/enemy.script'') = [Some ''sprite'', Some ''script'']"
  using resolve_concat [of sampleIndex "''main/enemy.script''"]
  by (simp add: sampleIndex_def sampleSprite_def sampleScript_def
        componentCompletionItem_def new_CompletionItem_def)

text \<open>
  Claim C5. Both lookups are made with the script path prefixed by a slash, and the
  result does not depend on what the index holds under any other key.
\<close>

theorem lookups_use_prefixed_path:
  "completionIfAttachedToGameObject idx script =
     map componentCompletionItem (findGameObjectComponents idx (CHR ''/'' # script)) \<and>
   completionIfAttachedToCollection idx script =
     flatMap instanceCompletionItem (findCollectionInstances idx (CHR ''/'' # script)) \<and>
   (\<forall>k v w. k \<noteq> CHR ''/'' # script \<longrightarrow>
      resolve (idx\<lparr>findGameObjectComponents := (findGameObjectComponents idx)(k := v),
                   findCollectionInstances := (findCollectionInstances idx)(k := w)\<rparr>) script
        = resolve idx script)"
  by (simp add: resolve_eq completionIfAttachedToGameObject_def
        completionIfAttachedToCollection_def)

text \<open>
  Claim C5 on the sample index: entries stored under the path without the slash are not
  seen by the resolver.
\<close>

theorem lookups_use_prefixed_path_witness:
  "''main/player.script'' \<noteq> ''/main/player.script'' \<and>
   resolve (sampleIndex\<lparr>findGameObjectComponents :=
                (findGameObjectComponents sampleIndex)(''main/player.script'' := [sampleSound]),
              findCollectionInstances :=
                (findCollectionInstances sampleIndex)(''main/player.script'' := [sampleNested])\<rparr>)
       ''main/player.script''
     = resolve sampleIndex ''main/player.script'' \<and>
   completionIfAttachedToCollection sampleIndex ''main/player.script''
     = instanceCompletionItem sampleOuter"
  using lookups_use_prefixed_path [of sampleIndex "''main/player.script''"]
  by (simp add: sampleIndex_def)

text \<open>
  Claim C6. When both lookups return the empty list for the prefixed path, the list of
  items is empty and the provider returns \<^verbatim>\<open>undefined\<close>; the result is a value of
  the provider, not an error.
\<close>

theorem no_entries_no_suggestions:
  "findGameObjectComponents idx (''/'' @ asRelativePath (uri document)) = [] \<Longrightarrow>
   findCollectionInstances idx (''/'' @ asRelativePath (uri document)) = [] \<Longrightarrow>
   resolve idx (asRelativePath (uri document)) = [] \<and>
   provideCompletionItems asRelativePath idx document position = None"
  by (simp add: resolve_eq provideCompletionItems_def)

text \<open>
  Claim C6 on the sample index: a script the index does not know, with the caret behind
  an opening quote.
\<close>

theorem no_entries_no_suggestions_witness:
  \<open>showUrlCompletion (sampleDocument ''/ws/main/other.script'' ''msg.post("'') (caretAt 10) \<and>
   findGameObjectComponents sampleIndex ''/main/other.script'' = [] \<and>
   findCollectionInstances sampleIndex ''/main/other.script'' = [] \<and>
   resolve sampleIndex ''main/other.script'' = [] \<and>
   provideCompletionItems sampleRelativePath sampleIndex
     (sampleDocument ''/ws/main/other.script'' ''msg.post("'') (caretAt 10) = None\<close>
  using no_entries_no_suggestions [of sampleIndex sampleRelativePath
      \<open>sampleDocument ''/ws/main/other.script'' ''msg.post("''\<close> "caretAt 10"]
  by (simp add: sampleIndex_def sampleRelativePath_def sampleDocument_def caretAt_def
        showUrlCompletion_def endsWith_def substring_def)

text \<open>
  Claim C8. Two calls in a row on the same path, with the lookup tables of the index
  unchanged. The first call leaves a heap with new item objects in it. If the first call
  returns, the second call on that heap returns too, with as many items, and the objects
  at its references are, position by position, equal to the objects at the references of
  the first call: same label, detail, description and filter text. The second call does
  not change the items of the first, and neither call changes an object that was in the
  heap before.
\<close>

theorem resolve_twice:
  assumes first: "resolve_heap depth idx script h = Some (items1, h1)"
  shows "\<exists>items2 h2.
           resolve_heap depth idx script h1 = Some (items2, h2) \<and>
           length items2 = length items1 \<and>
           map (deref h2) items2 = map (deref h1) items1 \<and>
           map (deref h2) items1 = map (deref h1) items1 \<and>
           list_all (\<lambda>a. \<exists>item. deref h1 a = Some (ItemObject item)) items1 \<and>
           take (length h) h1 = h \<and> take (length h) h2 = h"
proof -
  from first obtain its where content: "resolveContent depth idx script h = Some its"
    and items1: "items1 = [length h ..< length h + length its]"
    and h1: "h1 = h @ map ItemObject its"
    by (cases "resolveContent depth idx script h")
       (simp_all add: resolve_heap_alloc allocated_def)
  let ?items2 = "[length h1 ..< length h1 + length its]"
  let ?h2 = "h1 @ map ItemObject its"
  have "resolveContent depth idx script h1 = Some its"
    using content by (simp only: h1 resolveContent_stable)
  then have second: "resolve_heap depth idx script h1 = Some (?items2, ?h2)"
    by (simp only: resolve_heap_alloc allocated_Some)
  have c1: "map (deref h1) items1 = map (\<lambda>it. Some (ItemObject it)) its"
    using deref_allocated [of h its "[]"] by (simp add: items1 h1)
  have c2: "map (deref ?h2) ?items2 = map (\<lambda>it. Some (ItemObject it)) its"
    using deref_allocated [of h1 its "[]"] by simp
  have c3: "map (deref ?h2) items1 = map (\<lambda>it. Some (ItemObject it)) its"
    using deref_allocated [of h its "map ItemObject its"] by (simp add: items1 h1)
  have c4: "list_all (\<lambda>a. \<exists>item. deref h1 a = Some (ItemObject item)) items1"
  proof -
    have "\<forall>x \<in> set (map (deref h1) items1). \<exists>item. x = Some (ItemObject item)"
      unfolding c1 by auto
    then show ?thesis by (simp add: list_all_iff)
  qed
  have "take (length h) h1 = h" "take (length h) ?h2 = h"
    by (simp_all add: h1)
  with second c1 c2 c3 c4 show ?thesis
    by (intro exI [of _ ?items2] exI [of _ ?h2]) (simp add: items1)
qed

text \<open>
  Claim C8 on the sample heap: the first call creates five items, whose contents are the
  items of the sample collection, and the second call creates five items with the same
  contents.
\<close>

theorem resolve_twice_witness:
  "resolve_heap 2 sampleIndexRefs ''main/player.script'' sampleHeap
     = Some ([5, 6, 7, 8, 9],
             sampleHeap @ map ItemObject (resolve sampleIndex ''main/player.script'')) \<and>
   (\<exists>items2 h2.
      resolve_heap 2 sampleIndexRefs ''main/player.script''
          (sampleHeap @ map ItemObject (resolve sampleIndex ''main/player.script''))
        = Some (items2, h2) \<and>
      length items2 = 5 \<and>
      map (deref h2) items2
        = map (\<lambda>item. Some (ItemObject item)) (resolve sampleIndex ''main/player.script'') \<and>
      take 5 h2 = sampleHeap)"
proof -
  let ?h1 = "sampleHeap @ map ItemObject (resolve sampleIndex ''main/player.script'')"
  have len: "length sampleHeap = 5" "length (resolve sampleIndex ''main/player.script'') = 5"
    by (simp_all add: sampleHeap_def sample_resolve)
  have "map (deref ?h1) [length sampleHeap ..< length sampleHeap
            + length (resolve sampleIndex ''main/player.script'')]
          = map (\<lambda>item. Some (ItemObject item)) (resolve sampleIndex ''main/player.script'')"
    using deref_allocated [of sampleHeap "resolve sampleIndex ''main/player.script''" "[]"]
    by simp
  moreover have "[length sampleHeap ..< length sampleHeap
            + length (resolve sampleIndex ''main/player.script'')] = [5, 6, 7, 8, 9]"
    unfolding len by (simp add: upt_conv_Cons)
  ultimately have content:
    "map (deref ?h1) [5, 6, 7, 8, 9]
       = map (\<lambda>item. Some (ItemObject item)) (resolve sampleIndex ''main/player.script'')"
    by simp
  from resolve_twice [OF sample_first_call] obtain items2 h2 where
    "resolve_heap 2 sampleIndexRefs ''main/player.script'' ?h1 = Some (items2, h2)"
    "length items2 = length [5, 6, 7, 8, 9 :: nat]"
    "map (deref h2) items2 = map (deref ?h1) [5, 6, 7, 8, 9]"
    "take (length sampleHeap) h2 = sampleHeap"
    by blast
  then show ?thesis
    using sample_first_call content len by auto
qed

text \<open>
  Claim C10. The provider never returns the empty list: it returns
  \<^verbatim>\<open>undefined\<close> when the trigger predicate is false and when both sources are
  empty, and the non-empty list of items otherwise.
\<close>

theorem never_empty_list:
  "provideCompletionItems asRelativePath idx document position \<noteq> Some [] \<and>
   (\<not> showUrlCompletion document position \<longrightarrow>
      provideCompletionItems asRelativePath idx document position = None) \<and>
   (completionIfAttachedToGameObject idx (asRelativePath (uri document)) = [] \<and>
    completionIfAttachedToCollection idx (asRelativePath (uri document)) = [] \<longrightarrow>
      provideCompletionItems asRelativePath idx document position = None) \<and>
   (showUrlCompletion document position \<and> resolve idx (asRelativePath (uri document)) \<noteq> [] \<longrightarrow>
      provideCompletionItems asRelativePath idx document position
        = Some (resolve idx (asRelativePath (uri document))))"
  by (simp add: provideCompletionItems_def resolve_def Let_def)

text \<open>
  Claim C10 on the sample index: a caret behind a closed string, a script without
  entries, and a script attached to the sample collection.
\<close>

theorem never_empty_list_witness:
  \<open>\<not> showUrlCompletion (sampleDocument ''/ws/main/player.script'' ''msg.post("go")'') (caretAt 14) \<and>
   provideCompletionItems sampleRelativePath sampleIndex
     (sampleDocument ''/ws/main/player.script'' ''msg.post("go")'') (caretAt 14) = None \<and>
   showUrlCompletion (sampleDocument ''/ws/main/other.script'' ''msg.post("'') (caretAt 10) \<and>
   completionIfAttachedToGameObject sampleIndex ''main/other.script'' = [] \<and>
   completionIfAttachedToCollection sampleIndex ''main/other.script'' = [] \<and>
   provideCompletionItems sampleRelativePath sampleIndex
     (sampleDocument ''/ws/main/other.script'' ''msg.post("'') (caretAt 10) = None \<and>
   showUrlCompletion (sampleDocument ''/ws/main/player.script'' ''msg.post("'') (caretAt 10) \<and>
   provideCompletionItems sampleRelativePath sampleIndex
     (sampleDocument ''/ws/main/player.script'' ''msg.post("'') (caretAt 10)
     = Some (resolve sampleIndex ''main/player.script'')\<close>
  using
    never_empty_list [of sampleRelativePath sampleIndex
      \<open>sampleDocument ''/ws/main/player.script'' ''msg.post("go")''\<close> "caretAt 14"]
    never_empty_list [of sampleRelativePath sampleIndex
      \<open>sampleDocument ''/ws/main/other.script'' ''msg.post("''\<close> "caretAt 10"]
    never_empty_list [of sampleRelativePath sampleIndex
      \<open>sampleDocument ''/ws/main/player.script'' ''msg.post("''\<close> "caretAt 10"]
    sample_resolve
  by (simp add: sampleIndex_def sampleRelativePath_def sampleDocument_def caretAt_def
        showUrlCompletion_def endsWith_def substring_def regexTest_def isWordChar_def
        completionIfAttachedToGameObject_def completionIfAttachedToCollection_def)

subsection \<open>The suggestion formatter\<close>

text \<open>
  Claim C4. The item of an entity has the entity's url as label, a single space followed
  by the entity's type as detail, and the entity's filename as description. The filter
  text of a component's item is the component's id, whatever its url is; the filter text
  of an instance's item is the instance's url.
\<close>

theorem formatter_fields:
  "label (item_label (componentCompletionItem c)) = c_url c \<and>
   detail (item_label (componentCompletionItem c)) = CHR '' '' # c_type c \<and>
   description (item_label (componentCompletionItem c)) = c_filename c \<and>
   filterText (componentCompletionItem c) = Some (c_id c) \<and>
   filterText (componentCompletionItem (c\<lparr>c_url := u\<rparr>)) = Some (c_id c) \<and>
   label (item_label (instanceItem i)) = i_url i \<and>
   detail (item_label (instanceItem i)) = CHR '' '' # i_type i \<and>
   description (item_label (instanceItem i)) = i_filename i \<and>
   filterText (instanceItem i) = Some (i_url i)"
  by (simp add: componentCompletionItem_def instanceItem_def new_CompletionItem_def)

text \<open>
  Claim C4 on the sample sprite and the nested sample instance.
\<close>

theorem formatter_fields_witness:
  "filterText (componentCompletionItem sampleSprite) = Some ''sprite'' \<and>
   label (item_label (componentCompletionItem sampleSprite)) = ''/player#sprite'' \<and>
   detail (item_label (componentCompletionItem sampleSprite)) = '' sprite'' \<and>
   description (item_label (componentCompletionItem sampleSprite)) = ''/main/player.go'' \<and>
   filterText (instanceItem sampleNested) = Some ''/player/gun'' \<and>
   detail (item_label (instanceItem sampleNested)) = '' go''"
  using formatter_fields [of sampleSprite "''x''" sampleNested]
  by (simp add: sampleSprite_def sampleNested_def)

subsection \<open>Termination\<close>

text \<open>
  Claim C7, amended. The expansion has no guard against cycles; it relies on the tree
  invariant of the index. When the objects reachable from a reference form a finite tree,
  the expansion over the store returns as soon as the stack admits the height of the
  tree, and its result is the expansion of that tree.
\<close>

theorem expansion_returns_on_trees:
  "represents st r t \<Longrightarrow> height t \<le> depth \<Longrightarrow>
     instanceCompletionItemAt depth st r = Some (instanceCompletionItem t)"
proof (induction t arbitrary: r depth)
  case (IDefoldInstance u ty f insts comps)
  from IDefoldInstance.prems(2) obtain d where depth: "depth = Suc d"
    and d: "fold max (map height insts) 0 \<le> d"
    by (cases depth) simp_all
  from IDefoldInstance.prems(1) have fields:
    "o_url (st r) = u" "o_type (st r) = ty" "o_filename (st r) = f" "o_components (st r) = comps"
    and children: "list_all2 (represents st) (o_instances (st r)) insts"
    by simp_all
  have "list_all2 (\<lambda>r' inst. instanceCompletionItemAt d st r' = Some (instanceCompletionItem inst))
          (o_instances (st r)) insts"
  proof (rule list.rel_mono_strong [OF children])
    fix r' inst
    assume mem: "inst \<in> set insts" and rep: "represents st r' inst"
    have "height inst \<le> fold max (map height insts) 0"
      using mem by (simp add: fold_max_ge_elem)
    then have "height inst \<le> d" using d by simp
    then show "instanceCompletionItemAt d st r' = Some (instanceCompletionItem inst)"
      using IDefoldInstance.IH [OF mem rep] by simp
  qed
  then have "those (map (instanceCompletionItemAt d st) (o_instances (st r)))
               = Some (map instanceCompletionItem insts)"
    by (rule those_map_Some)
  moreover have "instanceItemAt st r = instanceItem (IDefoldInstance u ty f insts comps)"
    using fields by (simp add: instanceItemAt_def instanceItem_def)
  ultimately show ?case using depth fields by simp
qed

text \<open>
  The amended claim C7 on the sample store.
\<close>

theorem expansion_returns_on_trees_witness:
  "represents sampleStore 0 sampleOuter \<and> height sampleOuter \<le> 2 \<and>
   instanceCompletionItemAt 2 sampleStore 0 = Some (instanceCompletionItem sampleOuter)"
proof -
  have r: "represents sampleStore 0 sampleOuter"
    by (simp add: sampleStore_def sampleOuter_def sampleNested_def)
  have h: "height sampleOuter \<le> 2"
    by (simp add: sampleOuter_def sampleNested_def)
  show ?thesis using r h expansion_returns_on_trees [OF r h] by simp
qed

text \<open>
  Claim C7 as stated asks that the expansion returns on a cyclic index too. In the store
  where two instances hold each other, it returns for no depth of stack.
\<close>

theorem cyclic_expansion_counterexample:
  "\<forall>depth. instanceCompletionItemAt depth cyclicStore 0 = None"
proof
  fix depth
  have "instanceCompletionItemAt depth cyclicStore 0 = None \<and>
        instanceCompletionItemAt depth cyclicStore 1 = None"
    by (induction depth) (simp_all add: cyclicStore_def)
  then show "instanceCompletionItemAt depth cyclicStore 0 = None" by simp
qed

end
